theory Spec2Isabelle
  imports Main
begin

section \<open>Data model of \<^verbatim>\<open>src/state.ts\<close>\<close>

text \<open>
  \<^verbatim>\<open>ChatMessage.role\<close> is the union \<^verbatim>\<open>'user' | 'model' | 'system'\<close>, and
  \<^verbatim>\<open>UserMessageContentPart.type\<close> is \<^verbatim>\<open>'text' | 'image'\<close>.
\<close>

datatype role = User | Model | System

datatype part_type = TextKind | ImageKind

text \<open>
  An optional property (\<^verbatim>\<open>mimeType?: string\<close>) is an \<open>option\<close>: \<open>None\<close> is the
  property being absent (or \<^verbatim>\<open>undefined\<close>, which JSON serialisation drops as well).
\<close>

record UserMessageContentPart =
  ptype :: part_type
  pdata :: string
  mimeType :: "string option"

record MessageMeta =
  isLoading :: "bool option"
  error :: "string option"
  edited :: "bool option"
  regenerated :: "bool option"
  originalMessageId :: "string option"

record ChatMessage =
  msg_id :: string
  role :: role
  content :: "UserMessageContentPart list"
  timestamp :: nat
  meta :: "MessageMeta option"

text \<open>JavaScript truthiness of an optional string and of an optional boolean.\<close>

fun truthy_str :: "string option \<Rightarrow> bool" where
  "truthy_str None = False"
| "truthy_str (Some s) = (s \<noteq> [])"

fun truthy_bool :: "bool option \<Rightarrow> bool" where
  "truthy_bool None = False"
| "truthy_bool (Some b) = b"

text \<open>\<^verbatim>\<open>msg.meta?.isLoading\<close> and \<^verbatim>\<open>msg.meta?.error\<close>, read for their truthiness.\<close>

definition meta_isLoading :: "ChatMessage \<Rightarrow> bool" where
  "meta_isLoading msg = (case meta msg of None \<Rightarrow> False | Some m \<Rightarrow> truthy_bool (isLoading m))"

definition meta_error :: "ChatMessage \<Rightarrow> bool" where
  "meta_error msg = (case meta msg of None \<Rightarrow> False | Some m \<Rightarrow> truthy_str (error m))"

section \<open>The turn compiler: \<^verbatim>\<open>App.buildGeminiHistory\<close> (\<^verbatim>\<open>src/app.ts\<close>)\<close>

text \<open>
  A part of a request turn is \<^verbatim>\<open>{ text }\<close> or
  \<^verbatim>\<open>{ inlineData: { mimeType, data } }\<close> (either of the two may be \<^verbatim>\<open>undefined\<close>
  where \<^verbatim>\<open>handleSendMessage\<close> builds one); a turn is \<^verbatim>\<open>{ role, parts }\<close>.
\<close>

datatype GeminiPart = TextPart string | InlineData "string option" "string option"

record GeminiRequestContent =
  turn_role :: role
  parts :: "GeminiPart list"

text \<open>
  \<^verbatim>\<open>part.data.split(',')\<close>: the pieces between commas; the empty string splits into one
  empty piece. \<^verbatim>\<open>[1]\<close> of the result is \<^verbatim>\<open>undefined\<close> when there is no comma.
\<close>

fun split_comma :: "string \<Rightarrow> string list" where
  "split_comma [] = [[]]"
| "split_comma (c # cs) =
     (if c = CHR '','' then [] # split_comma cs
      else (case split_comma cs of
              [] \<Rightarrow> [[c]]
            | w # ws \<Rightarrow> (c # w) # ws))"

fun index_opt :: "'a list \<Rightarrow> nat \<Rightarrow> 'a option" where
  "index_opt [] n = None"
| "index_opt (x # xs) 0 = Some x"
| "index_opt (x # xs) (Suc n) = index_opt xs n"

definition base64_of :: "string \<Rightarrow> string option" where
  "base64_of d = index_opt (split_comma d) 1"

text \<open>
  The body of the inner \<^verbatim>\<open>msg.content.forEach\<close>: one content part pushed, or not, onto
  \<^verbatim>\<open>currentParts\<close>.
\<close>

definition push_part :: "GeminiPart list \<Rightarrow> UserMessageContentPart \<Rightarrow> GeminiPart list" where
  "push_part currentParts part =
     (if ptype part = TextKind then currentParts @ [TextPart (pdata part)]
      else if ptype part = ImageKind \<and> truthy_str (mimeType part) \<and> pdata part \<noteq> [] then
        (case base64_of (pdata part) of
           None \<Rightarrow> currentParts
         | Some base64Data \<Rightarrow>
             if base64Data \<noteq> [] then
               currentParts @ [InlineData (mimeType part) (Some base64Data)]
             else currentParts)
      else currentParts)"

text \<open>The three local variables of \<^verbatim>\<open>buildGeminiHistory\<close>.\<close>

record builder =
  history :: "GeminiRequestContent list"
  currentRole :: "role option"
  currentParts :: "GeminiPart list"

definition builder_init :: builder where
  "builder_init = \<lparr>history = [], currentRole = None, currentParts = []\<rparr>"

text \<open>The body of \<^verbatim>\<open>messages.forEach\<close>.\<close>

definition msg_step :: "builder \<Rightarrow> ChatMessage \<Rightarrow> builder" where
  "msg_step b msg =
     (if role msg = System \<or> meta_isLoading msg \<or> meta_error msg then b
      else
        let geminiRole = role msg;
            b1 = (case currentRole b of
                    None \<Rightarrow> b
                  | Some r \<Rightarrow>
                      if r \<noteq> geminiRole then
                        b\<lparr>history := history b @ [\<lparr>turn_role = r, parts = currentParts b\<rparr>],
                          currentParts := []\<rparr>
                      else b);
            b2 = b1\<lparr>currentRole := Some geminiRole\<rparr>
        in b2\<lparr>currentParts := foldl push_part (currentParts b2) (content msg)\<rparr>)"

text \<open>The final flush: \<^verbatim>\<open>if (currentRole && currentParts.length > 0)\<close>.\<close>

definition builder_finish :: "builder \<Rightarrow> GeminiRequestContent list" where
  "builder_finish b =
     (case currentRole b of
        None \<Rightarrow> history b
      | Some r \<Rightarrow>
          if currentParts b \<noteq> [] then history b @ [\<lparr>turn_role = r, parts = currentParts b\<rparr>]
          else history b)"

definition buildGeminiHistory :: "ChatMessage list \<Rightarrow> GeminiRequestContent list" where
  "buildGeminiHistory messages = builder_finish (foldl msg_step builder_init messages)"

section \<open>The store: class \<^verbatim>\<open>AppState\<close> of \<^verbatim>\<open>src/state.ts\<close>\<close>

text \<open>
  \<^verbatim>\<open>confirmModalAction: (() => void) | null\<close>. A callback is an opaque value (a
  number names it); the property can also be missing from an object, which is what
  JSON serialisation makes of a function-valued property.
\<close>

datatype action_field = ActionAbsent | ActionNull | ActionFn nat

record AppStateData =
  apiKey :: "string option"
  selectedModel :: string
  customInstructions :: string
  currentConversation :: "ChatMessage list"
  isSending :: bool
  currentError :: "string option"
  isSettingsModalOpen :: bool
  isLogsModalOpen :: bool
  isConfirmModalOpen :: bool
  confirmModalAction :: action_field
  confirmModalMessage :: string
  isEditModalOpen :: bool
  editingMessage :: "ChatMessage option"

text \<open>
  A subscriber is a callback that receives a snapshot and either returns (\<open>None\<close>) or
  throws (\<open>Some e\<close>, \<open>e\<close> the text of what it threw); \<open>sub_id\<close> tells subscribers apart
  in the trace of calls.
\<close>

record Subscriber =
  sub_id :: nat
  callback :: "AppStateData \<Rightarrow> string option"

datatype log_level = LogError | LogWarn | LogInfo | LogLog | LogDebug

text \<open>
  An archived chat as \<^verbatim>\<open>handleNewChatRequest\<close> builds it.
\<close>

record ArchivedChat =
  archive_id :: string
  archive_timestamp :: nat
  summary :: string
  conversation :: "ChatMessage list"
  snapshot_selectedModel :: string
  snapshot_customInstructions :: string

text \<open>
  The running application: the two private fields of \<^verbatim>\<open>AppState\<close> (\<open>state\<close>,
  \<open>subscribers\<close>) and the environment the code acts on: the calls made to subscriber
  callbacks (\<open>delivered\<close>, in order, each with the snapshot passed), the console, the
  archive kept by the storage service, and the clock: \<open>dateNow k\<close> is what the
  \<open>k\<close>-th call of \<^verbatim>\<open>Date.now()\<close> returns, \<open>reads\<close> counts the calls made so far.
  \<open>localeDate\<close> is \<^verbatim>\<open>new Date().toLocaleDateString()\<close>.
\<close>

record App =
  state :: AppStateData
  subscribers :: "Subscriber list"
  delivered :: "(nat \<times> AppStateData) list"
  console :: "(log_level \<times> string) list"
  archive :: "ArchivedChat list"
  dateNow :: "nat \<Rightarrow> nat"
  reads :: nat
  localeDate :: string

text \<open>
  \<^verbatim>\<open>JSON.parse(JSON.stringify(this.state))\<close>: strings, numbers, booleans, \<^verbatim>\<open>null\<close>,
  arrays and plain objects come back as equal, freshly built values; a property whose
  value is a function is left out of the serialised object.
\<close>

definition json_roundtrip :: "AppStateData \<Rightarrow> AppStateData" where
  "json_roundtrip s =
     s\<lparr>confirmModalAction :=
         (case confirmModalAction s of
            ActionFn f \<Rightarrow> ActionAbsent
          | ActionNull \<Rightarrow> ActionNull
          | ActionAbsent \<Rightarrow> ActionAbsent)\<rparr>"

definition getState :: "App \<Rightarrow> AppStateData" where
  "getState w = json_roundtrip (state w)"

text \<open>
  \<^verbatim>\<open>notify\<close>: one snapshot, then every subscriber in registration order inside
  \<^verbatim>\<open>try { subscriber(currentState) } catch (error) { console.error(...) }\<close>.
\<close>

fun notify_loop :: "AppStateData \<Rightarrow> Subscriber list \<Rightarrow> App \<Rightarrow> App" where
  "notify_loop currentState [] w = w"
| "notify_loop currentState (subscriber # rest) w =
     (let w1 = w\<lparr>delivered := delivered w @ [(sub_id subscriber, currentState)]\<rparr>
      in case callback subscriber currentState of
           None \<Rightarrow> notify_loop currentState rest w1
         | Some err \<Rightarrow>
             notify_loop currentState rest
               (w1\<lparr>console := console w1 @ [(LogError, ''Error in AppState subscriber: '' @ err)]\<rparr>))"

definition notify :: "App \<Rightarrow> App" where
  "notify w = notify_loop (getState w) (subscribers w) w"

text \<open>
  \<^verbatim>\<open>this.state = { ...this.state, ...updates }\<close>. Every updater of the class returns
  \<^verbatim>\<open>{ ...s, changes }\<close> for the snapshot \<open>s\<close> it was given, so \<open>updates\<close> carries every
  property of the snapshot; only \<open>confirmModalAction\<close> can be missing from it, and then
  the property of \<^verbatim>\<open>this.state\<close> stays.
\<close>

definition spread :: "AppStateData \<Rightarrow> AppStateData \<Rightarrow> AppStateData" where
  "spread st updates =
     updates\<lparr>confirmModalAction :=
         (case confirmModalAction updates of
            ActionAbsent \<Rightarrow> confirmModalAction st
          | ActionNull \<Rightarrow> ActionNull
          | ActionFn f \<Rightarrow> ActionFn f)\<rparr>"

definition updateState :: "(AppStateData \<Rightarrow> AppStateData) \<Rightarrow> App \<Rightarrow> App" where
  "updateState updater w =
     (let updates = updater (getState w)
      in notify (w\<lparr>state := spread (state w) updates\<rparr>))"

definition subscribe :: "Subscriber \<Rightarrow> App \<Rightarrow> App" where
  "subscribe cb w = w\<lparr>subscribers := subscribers w @ [cb]\<rparr>"

definition addMessage :: "ChatMessage \<Rightarrow> App \<Rightarrow> App" where
  "addMessage message =
     updateState (\<lambda>s. s\<lparr>currentConversation := currentConversation s @ [message],
                        currentError := None\<rparr>)"

text \<open>
  \<^verbatim>\<open>Partial<ChatMessage>\<close>: each property present with a value, or not present.
\<close>

record ChatMessagePatch =
  patch_id :: "string option"
  patch_role :: "role option"
  patch_content :: "UserMessageContentPart list option"
  patch_timestamp :: "nat option"
  patch_meta :: "MessageMeta option"

text \<open>\<^verbatim>\<open>{ ...a, ...b }\<close> on two optional meta objects; spreading \<^verbatim>\<open>undefined\<close> adds nothing.\<close>

definition empty_meta :: MessageMeta where
  "empty_meta = \<lparr>isLoading = None, error = None, edited = None, regenerated = None,
                  originalMessageId = None\<rparr>"

definition or_else :: "'a option \<Rightarrow> 'a option \<Rightarrow> 'a option" where
  "or_else new old = (case new of None \<Rightarrow> old | Some v \<Rightarrow> Some v)"

definition spread_meta :: "MessageMeta option \<Rightarrow> MessageMeta option \<Rightarrow> MessageMeta" where
  "spread_meta a b =
     (let x = (case a of None \<Rightarrow> empty_meta | Some m \<Rightarrow> m);
          y = (case b of None \<Rightarrow> empty_meta | Some m \<Rightarrow> m)
      in \<lparr>isLoading = or_else (isLoading y) (isLoading x),
          error = or_else (error y) (error x),
          edited = or_else (edited y) (edited x),
          regenerated = or_else (regenerated y) (regenerated x),
          originalMessageId = or_else (originalMessageId y) (originalMessageId x)\<rparr>)"

text \<open>
  \<^verbatim>\<open>{ ...msg, ...newUpdates, meta: { ...msg.meta, ...newUpdates.meta } }\<close>
\<close>

definition merge_message :: "ChatMessage \<Rightarrow> ChatMessagePatch \<Rightarrow> ChatMessage" where
  "merge_message msg newUpdates =
     \<lparr>msg_id = (case patch_id newUpdates of None \<Rightarrow> msg_id msg | Some v \<Rightarrow> v),
      role = (case patch_role newUpdates of None \<Rightarrow> role msg | Some v \<Rightarrow> v),
      content = (case patch_content newUpdates of None \<Rightarrow> content msg | Some v \<Rightarrow> v),
      timestamp = (case patch_timestamp newUpdates of None \<Rightarrow> timestamp msg | Some v \<Rightarrow> v),
      meta = Some (spread_meta (meta msg) (patch_meta newUpdates))\<rparr>"

text \<open>
  \<open>updates\<close> is a patch or a function from the message to a patch
  (\<^verbatim>\<open>typeof updates === 'function' ? updates(msg) : updates\<close>).
\<close>

datatype message_updates = PatchObject ChatMessagePatch | PatchFunction "ChatMessage \<Rightarrow> ChatMessagePatch"

definition updateMessage :: "string \<Rightarrow> message_updates \<Rightarrow> App \<Rightarrow> App" where
  "updateMessage messageId updates =
     updateState (\<lambda>s.
       s\<lparr>currentConversation :=
           map (\<lambda>msg.
                  if msg_id msg = messageId then
                    merge_message msg
                      (case updates of PatchFunction f \<Rightarrow> f msg | PatchObject p \<Rightarrow> p)
                  else msg)
               (currentConversation s)\<rparr>)"

definition clearConversation :: "App \<Rightarrow> App" where
  "clearConversation = updateState (\<lambda>s. s\<lparr>currentConversation := []\<rparr>)"

definition setConversation :: "ChatMessage list \<Rightarrow> App \<Rightarrow> App" where
  "setConversation conv = updateState (\<lambda>s. s\<lparr>currentConversation := conv\<rparr>)"

definition setIsSending :: "bool \<Rightarrow> App \<Rightarrow> App" where
  "setIsSending b = updateState (\<lambda>s. s\<lparr>isSending := b\<rparr>)"

definition setError :: "string option \<Rightarrow> App \<Rightarrow> App" where
  "setError e = updateState (\<lambda>s. s\<lparr>currentError := e\<rparr>)"


definition closeConfirmModal :: "App \<Rightarrow> App" where
  "closeConfirmModal =
     updateState (\<lambda>s. s\<lparr>isConfirmModalOpen := False,
                        confirmModalMessage := [],
                        confirmModalAction := ActionNull\<rparr>)"

section \<open>The handlers of class \<^verbatim>\<open>App\<close> (\<^verbatim>\<open>src/app.ts\<close>)\<close>

text \<open>A number inside a template literal (\<^verbatim>\<open>`user-${Date.now()}`\<close>): its decimal digits.\<close>

definition digit_char :: "nat \<Rightarrow> char" where
  "digit_char d = ''0123456789'' ! d"

fun show_nat :: "nat \<Rightarrow> string" where
  "show_nat n =
     (if n < 10 then [digit_char n]
      else show_nat (n div 10) @ [digit_char (n mod 10)])"

declare show_nat.simps [simp del]

definition Date_now :: "App \<Rightarrow> nat \<times> App" where
  "Date_now w = (dateNow w (reads w), w\<lparr>reads := Suc (reads w)\<rparr>)"

definition console_log :: "log_level \<Rightarrow> string \<Rightarrow> App \<Rightarrow> App" where
  "console_log lvl line w = w\<lparr>console := console w @ [(lvl, line)]\<rparr>"

definition text_part :: "string \<Rightarrow> UserMessageContentPart" where
  "text_part t = \<lparr>ptype = TextKind, pdata = t, mimeType = None\<rparr>"

text \<open>
  What \<^verbatim>\<open>await this.geminiService.generateContent(...)\<close> comes back with: a response,
  of which the handler reads \<^verbatim>\<open>candidates?.[0]?.content?.parts\<close> (\<open>None\<close> when that
  chain ends in \<^verbatim>\<open>undefined\<close>) and each part's optional \<open>text\<close>; or a rejection, of which
  it reads \<^verbatim>\<open>error.message\<close>.
\<close>

datatype api_outcome = Resolved "string option list option" | Rejected "string option"

fun join_newline :: "string list \<Rightarrow> string" where
  "join_newline [] = []"
| "join_newline [x] = x"
| "join_newline (x # y # ys) = x @ [CHR 0x0A] @ join_newline (y # ys)"

definition aiResponseText :: "string option list option \<Rightarrow> string" where
  "aiResponseText ps =
     (case ps of
        None \<Rightarrow> ''No response text.''
      | Some l \<Rightarrow>
          let joined = join_newline (map (\<lambda>p. case p of None \<Rightarrow> [] | Some t \<Rightarrow> t) l)
          in if joined = [] then ''No response text.'' else joined)"

text \<open>The request handed to the API service.\<close>

record GeminiRequest =
  req_model :: string
  req_contents :: "GeminiRequestContent list"
  req_systemInstruction :: "string option"
  req_apiKey :: string

record pending_send =
  aiThinkingMessageId :: string
  request :: GeminiRequest

definition current_user_part :: "UserMessageContentPart \<Rightarrow> GeminiPart" where
  "current_user_part part =
     (if ptype part = ImageKind then InlineData (mimeType part) (base64_of (pdata part))
      else TextPart (pdata part))"

text \<open>
  \<^verbatim>\<open>handleSendMessage\<close> up to its \<^verbatim>\<open>await\<close>: the part that runs at once when the
  handler is called. It returns the request in flight, or \<open>None\<close> when the handler
  returned before sending.
\<close>

definition handleSendMessage_begin :: "UserMessageContentPart list \<Rightarrow> App \<Rightarrow> App \<times> pending_send option" where
  "handleSendMessage_begin content' w =
     (if isSending (getState w) then (w, None)
      else if \<not> truthy_str (apiKey (getState w)) then
        (let w1 = setError (Some ''API Key not set. Please configure it in Settings.'') w;
             (t1, w2) = Date_now w1;
             (t2, w3) = Date_now w2;
             w4 = addMessage
                    \<lparr>msg_id = ''err-'' @ show_nat t1, role = System,
                     content = [text_part ''Error: API Key not set. Please configure it in Settings.''],
                     timestamp = t2,
                     meta = Some (empty_meta\<lparr>error := Some ''API Key not set''\<rparr>)\<rparr> w3
         in (w4, None))
      else
        (let key = the (apiKey (getState w));
             (t1, w1) = Date_now w;
             (t2, w2) = Date_now w1;
             userMessage = \<lparr>msg_id = ''user-'' @ show_nat t1, role = User, content = content',
                            timestamp = t2, meta = None\<rparr>;
             w3 = addMessage userMessage w2;
             w4 = setIsSending True w3;
             (t3, w5) = Date_now w4;
             aiId = ''ai-thinking-'' @ show_nat t3;
             (t4, w6) = Date_now w5;
             w7 = addMessage
                    \<lparr>msg_id = aiId, role = Model, content = [text_part []], timestamp = t4,
                     meta = Some (empty_meta\<lparr>isLoading := Some True\<rparr>)\<rparr> w6;
             history' = currentConversation (getState w7);
             geminiHistory = buildGeminiHistory (butlast history');
             payloadContents = geminiHistory @
                 [\<lparr>turn_role = User, parts = map current_user_part content'\<rparr>];
             systemInstruction = customInstructions (getState w7)
         in (w7, Some \<lparr>aiThinkingMessageId = aiId,
                       request = \<lparr>req_model = selectedModel (getState w7),
                                  req_contents = payloadContents,
                                  req_systemInstruction =
                                    (if systemInstruction = [] then None else Some systemInstruction),
                                  req_apiKey = key\<rparr>\<rparr>)))"

text \<open>
  \<^verbatim>\<open>handleSendMessage\<close> after its \<^verbatim>\<open>await\<close>: the rest of the \<^verbatim>\<open>try\<close> block on a
  response, the \<^verbatim>\<open>catch\<close> block on a rejection, then \<^verbatim>\<open>finally\<close>.
\<close>

definition handleSendMessage_settle :: "string \<Rightarrow> api_outcome \<Rightarrow> App \<Rightarrow> App" where
  "handleSendMessage_settle aiId outcome w =
     (case outcome of
        Resolved ps \<Rightarrow>
          (let w1 = updateMessage aiId
                      (PatchObject \<lparr>patch_id = None, patch_role = None,
                         patch_content = Some [text_part (aiResponseText ps)],
                         patch_timestamp = None,
                         patch_meta = Some (empty_meta\<lparr>isLoading := Some False\<rparr>)\<rparr>) w
           in setIsSending False w1)
      | Rejected m \<Rightarrow>
          (let errorMessage = (if truthy_str m then the m else ''Failed to get response from AI.'');
               w0 = console_log LogError (''Error generating content: '' @ errorMessage) w;
               w1 = updateMessage aiId
                      (PatchObject \<lparr>patch_id = None, patch_role = None,
                         patch_content = Some [text_part (''Error: '' @ errorMessage)],
                         patch_timestamp = None,
                         patch_meta = Some (empty_meta\<lparr>isLoading := Some False,
                                                        error := Some errorMessage\<rparr>)\<rparr>) w0;
               w2 = setError (Some errorMessage) w1
           in setIsSending False w2))"


text \<open>\<^verbatim>\<open>Array.prototype.findIndex\<close>, with \<open>None\<close> for \<^verbatim>\<open>-1\<close>.\<close>

fun findIndex :: "('a \<Rightarrow> bool) \<Rightarrow> 'a list \<Rightarrow> nat option" where
  "findIndex P [] = None"
| "findIndex P (x # xs) =
     (if P x then Some 0 else (case findIndex P xs of None \<Rightarrow> None | Some i \<Rightarrow> Some (Suc i)))"

text \<open>
  \<^verbatim>\<open>for (let i = messageIndex - 1; i >= 0; i--)\<close>: \<open>scan_back conv n\<close> looks at the
  indices \<open>n - 1\<close> down to \<open>0\<close>, all below the length of \<open>conv\<close> where it is called.
\<close>

fun scan_back :: "ChatMessage list \<Rightarrow> nat \<Rightarrow> nat option" where
  "scan_back conv 0 = None"
| "scan_back conv (Suc i) = (if role (conv ! i) = User then Some i else scan_back conv i)"

text \<open>
  \<^verbatim>\<open>handleRegenerateResponse\<close> up to the \<^verbatim>\<open>await\<close> inside the \<^verbatim>\<open>handleSendMessage\<close>
  it calls, and the whole of it.
\<close>

definition handleRegenerateResponse_begin :: "string \<Rightarrow> App \<Rightarrow> App \<times> pending_send option" where
  "handleRegenerateResponse_begin messageId w =
     (if isSending (getState w) then (w, None)
      else
        let conv = currentConversation (getState w) in
        case findIndex (\<lambda>msg. msg_id msg = messageId) conv of
          None \<Rightarrow>
            (console_log LogError ''Cannot regenerate: Message not found or not an AI message.'' w, None)
        | Some messageIndex \<Rightarrow>
            if role (conv ! messageIndex) \<noteq> Model then
              (console_log LogError ''Cannot regenerate: Message not found or not an AI message.'' w, None)
            else
              (case scan_back conv messageIndex of
                 None \<Rightarrow>
                   (console_log LogError ''Cannot regenerate: Could not find preceding user message.'' w, None)
               | Some lastUserMessageIndex \<Rightarrow>
                   let userPromptMessage = conv ! lastUserMessageIndex;
                       w1 = setConversation (take messageIndex conv) w
                   in handleSendMessage_begin (content userPromptMessage) w1))"

definition handleRegenerateResponse :: "string \<Rightarrow> api_outcome \<Rightarrow> App \<Rightarrow> App" where
  "handleRegenerateResponse messageId outcome w =
     (case handleRegenerateResponse_begin messageId w of
        (w1, None) \<Rightarrow> w1
      | (w1, Some p) \<Rightarrow> handleSendMessage_settle (aiThinkingMessageId p) outcome w1)"



text \<open>
  Modelled from the spec: \<^verbatim>\<open>StorageService.archiveChat\<close> of the module
  \<^verbatim>\<open>./services\<close> that \<^verbatim>\<open>src/app.ts\<close> imports, which is not among the sources (the
  \<^verbatim>\<open>StorageService\<close> under \<^verbatim>\<open>src/ts/services\<close> has no such method). The spec has the
  conversation copied into the archive collection, an ordered collection of past
  conversations to which the save-and-start-new operation appends.
\<close>

definition archiveChat :: "ArchivedChat \<Rightarrow> App \<Rightarrow> App" where
  "archiveChat chat w = w\<lparr>archive := archive w @ [chat]\<rparr>"

text \<open>
  \<^verbatim>\<open>firstUserMessage?.content.find(p => p.type === 'text')?.data.substring(0, 50)
  || `Chat from ${new Date().toLocaleDateString()}`\<close>
\<close>

definition chat_summary :: "ChatMessage list \<Rightarrow> string \<Rightarrow> string" where
  "chat_summary conv localDate =
     (let fallback = ''Chat from '' @ localDate in
      case find (\<lambda>m. role m = User) conv of
        None \<Rightarrow> fallback
      | Some firstUserMessage \<Rightarrow>
          (case find (\<lambda>p. ptype p = TextKind) (content firstUserMessage) of
             None \<Rightarrow> fallback
           | Some p \<Rightarrow> if take 50 (pdata p) = [] then fallback else take 50 (pdata p)))"

definition handleNewChatRequest :: "bool \<Rightarrow> App \<Rightarrow> App" where
  "handleNewChatRequest saveCurrent w =
     (let conv = currentConversation (getState w);
          w1 = (if saveCurrent \<and> length conv > 0 then
                  (let (t1, wa) = Date_now w;
                       (t2, wb) = Date_now wa;
                       archivedChat =
                         \<lparr>archive_id = ''archive-'' @ show_nat t1,
                          archive_timestamp = t2,
                          summary = chat_summary conv (localeDate wb) @ ''...'',
                          conversation = conv,
                          snapshot_selectedModel = selectedModel (getState wb),
                          snapshot_customInstructions = customInstructions (getState wb)\<rparr>
                   in console_log LogInfo ''Current chat archived.'' (archiveChat archivedChat wb))
                else w);
          w2 = clearConversation w1;
          (t3, w3) = Date_now w2;
          (t4, w4) = Date_now w3;
          w5 = addMessage
                 \<lparr>msg_id = ''sys-'' @ show_nat t3, role = System,
                  content = [text_part ''New chat started.''], timestamp = t4, meta = None\<rparr> w4;
          w6 = (if \<not> truthy_str (apiKey (getState w5)) then
                  (let (t5, wc) = Date_now w5;
                       (t6, wd) = Date_now wc
                   in addMessage
                        \<lparr>msg_id = ''sys-nokey-'' @ show_nat t5, role = System,
                         content = [text_part
                           ''Remember to set your API key in Settings if you haven't already.''],
                         timestamp = t6, meta = None\<rparr> wd)
                else w5)
      in closeConfirmModal w6)"

section \<open>The second store: class \<^verbatim>\<open>AppState\<close> over \<^verbatim>\<open>src/ts/types/index.d.ts\<close>\<close>

text \<open>
  The sources hold a second class \<^verbatim>\<open>AppState\<close> (the one importing
  \<^verbatim>\<open>../types/index.d.ts\<close> and \<^verbatim>\<open>../services/StorageService.js\<close>), on messages of type
  \<^verbatim>\<open>MessageData\<close>. Its names carry the suffix \<open>_ts\<close> here.
\<close>

datatype role_ts = UserRole | ModelRole

datatype 'a nullable = Undefined | Null | Val 'a

record MessageData =
  md_id :: string
  md_role :: role_ts
  md_text :: string
  imageBase64 :: "string nullable"
  imageMimeType :: "string nullable"
  isError :: "bool option"


record AppStateData_ts =
  ts_apiKey :: string
  ts_selectedModel :: string
  ts_customInstructions :: string
  ts_conversation :: "MessageData list"

record Subscriber_ts =
  ts_sub_id :: nat
  ts_callback :: "AppStateData_ts \<Rightarrow> string option"

text \<open>
  The object's fields \<open>ts_state\<close> and \<open>ts_subscribers\<close>, and around them the calls made
  to subscribers, the console, and the slot of \<^verbatim>\<open>localStorage\<close> that
  \<^verbatim>\<open>StorageService.saveState\<close> writes; \<open>ts_quota_ok\<close> says whether \<^verbatim>\<open>setItem\<close> succeeds.
\<close>

record AppState_ts =
  ts_state :: AppStateData_ts
  ts_subscribers :: "Subscriber_ts list"
  ts_delivered :: "(nat \<times> AppStateData_ts) list"
  ts_console :: "(log_level \<times> string) list"
  ts_saved :: "AppStateData_ts option"
  ts_quota_ok :: bool

definition console_ts :: "log_level \<Rightarrow> string \<Rightarrow> AppState_ts \<Rightarrow> AppState_ts" where
  "console_ts lvl line a = a\<lparr>ts_console := ts_console a @ [(lvl, line)]\<rparr>"

text \<open>\<^verbatim>\<open>StorageService.saveState\<close> (\<^verbatim>\<open>src/ts/services/StorageService.ts\<close>).\<close>

definition saveState :: "AppStateData_ts \<Rightarrow> AppState_ts \<Rightarrow> AppState_ts" where
  "saveState st a =
     (if ts_quota_ok a then
        console_ts LogInfo ''[StorageService] State saved successfully to localStorage.''
          (a\<lparr>ts_saved := Some st\<rparr>)
      else
        console_ts LogError ''[StorageService] LocalStorage quota exceeded.''
          (console_ts LogError ''[StorageService] Failed to save state to localStorage:'' a))"

fun forEach_ts :: "Subscriber_ts list \<Rightarrow> AppState_ts \<Rightarrow> AppState_ts" where
  "forEach_ts [] a = a"
| "forEach_ts (cb # rest) a =
     (let a1 = a\<lparr>ts_delivered := ts_delivered a @ [(ts_sub_id cb, ts_state a)]\<rparr>
      in case ts_callback cb (ts_state a) of
           None \<Rightarrow> forEach_ts rest a1
         | Some err \<Rightarrow>
             forEach_ts rest
               (console_ts LogError (''[AppState] Error in subscriber callback: '' @ err) a1))"





section \<open>Notions the properties are stated with\<close>

text \<open>
  The spec speaks of a message's status; the code keeps it in \<open>meta\<close>. A message is
  pending when \<^verbatim>\<open>meta?.isLoading\<close> is truthy and failed when \<^verbatim>\<open>meta?.error\<close> is
  truthy, the two tests that \<^verbatim>\<open>buildGeminiHistory\<close> and the \<^verbatim>\<open>Message\<close> component make;
  otherwise it is final.
\<close>

datatype status = Final | Pending | Failed

definition msg_status :: "ChatMessage \<Rightarrow> status" where
  "msg_status msg =
     (if meta_isLoading msg then Pending
      else if meta_error msg then Failed
      else Final)"

definition eligible :: "ChatMessage \<Rightarrow> bool" where
  "eligible msg = (role msg \<noteq> System \<and> msg_status msg = Final)"

text \<open>The request parts that one message's content turns into.\<close>

definition convert_content :: "UserMessageContentPart list \<Rightarrow> GeminiPart list" where
  "convert_content cs = foldl push_part [] cs"

text \<open>Everything accumulated so far, flushed or not; and two invariants of the loop.\<close>

definition all_parts :: "builder \<Rightarrow> GeminiPart list" where
  "all_parts b = concat (map parts (history b)) @ currentParts b"

definition builder_ok :: "builder \<Rightarrow> bool" where
  "builder_ok b = (currentRole b = None \<longrightarrow> currentParts b = [])"

definition roles_of :: "builder \<Rightarrow> role list" where
  "roles_of b = map turn_role (history b) @ (case currentRole b of None \<Rightarrow> [] | Some r \<Rightarrow> [r])"

definition alternating :: "builder \<Rightarrow> bool" where
  "alternating b = (distinct_adj (roles_of b) \<and> (currentRole b = None \<longrightarrow> history b = []))"

text \<open>
  The two messages a send appends, as functions of the clock: the copy of the user's
  content and the placeholder for the reply.
\<close>

definition userMessage_of :: "UserMessageContentPart list \<Rightarrow> App \<Rightarrow> ChatMessage" where
  "userMessage_of c w =
     \<lparr>msg_id = ''user-'' @ show_nat (dateNow w (reads w)), role = User, content = c,
      timestamp = dateNow w (Suc (reads w)), meta = None\<rparr>"

definition thinking_of :: "App \<Rightarrow> ChatMessage" where
  "thinking_of w =
     \<lparr>msg_id = ''ai-thinking-'' @ show_nat (dateNow w (Suc (Suc (reads w)))), role = Model,
      content = [text_part []], timestamp = dateNow w (Suc (Suc (Suc (reads w)))),
      meta = Some (empty_meta\<lparr>isLoading := Some True\<rparr>)\<rparr>"

definition settle_patch :: "string \<Rightarrow> ChatMessagePatch" where
  "settle_patch t =
     \<lparr>patch_id = None, patch_role = None, patch_content = Some [text_part t],
      patch_timestamp = None, patch_meta = Some (empty_meta\<lparr>isLoading := Some False\<rparr>)\<rparr>"

section \<open>Concrete states\<close>

text \<open>The defaults that the constructor of \<^verbatim>\<open>AppState\<close> (\<^verbatim>\<open>src/state.ts\<close>) sets.\<close>

definition initial_state :: AppStateData where
  "initial_state =
     \<lparr>apiKey = None, selectedModel = ''gemini-1.5-flash-latest'', customInstructions = [],
      currentConversation = [], isSending = False, currentError = None,
      isSettingsModalOpen = False, isLogsModalOpen = False, isConfirmModalOpen = False,
      confirmModalAction = ActionNull, confirmModalMessage = [], isEditModalOpen = False,
      editingMessage = None\<rparr>"

text \<open>The conversation \<^verbatim>\<open>[user:"hi", model:"hello"]\<close>.\<close>

definition hi_hello :: "ChatMessage list" where
  "hi_hello =
     [\<lparr>msg_id = ''u1'', role = User, content = [text_part ''hi''], timestamp = 1, meta = None\<rparr>,
      \<lparr>msg_id = ''m1'', role = Model, content = [text_part ''hello''], timestamp = 2,
       meta = Some (empty_meta\<lparr>isLoading := Some False\<rparr>)\<rparr>]"

text \<open>
  An application with an API key, that conversation, no request in flight, and a clock
  whose \<open>k\<close>-th reading is \<open>1000 + k\<close>; the same with one subscriber; the same with a
  request in flight; the same with no message.
\<close>

definition regen_app :: App where
  "regen_app =
     \<lparr>state = initial_state\<lparr>apiKey := Some ''k'', currentConversation := hi_hello\<rparr>,
      subscribers = [], delivered = [], console = [], archive = [],
      dateNow = (\<lambda>k. 1000 + k), reads = 0, localeDate = ''1/1/2026''\<rparr>"



definition empty_app :: App where
  "empty_app = regen_app\<lparr>state := (state regen_app)\<lparr>currentConversation := []\<rparr>\<rparr>"





section \<open>The turn compiler\<close>

lemma push_part_append: "push_part acc p = acc @ push_part [] p"
  by (simp add: push_part_def split: option.splits)

lemma foldl_push_part: "foldl push_part acc cs = acc @ foldl push_part [] cs"
proof (induction cs arbitrary: acc)
  case Nil
  show ?case by simp
next
  case (Cons c cs)
  show ?case
    using Cons.IH [of "push_part acc c"] Cons.IH [of "push_part [] c"] push_part_append [of acc c]
    by simp
qed

lemma eligible_iff:
  "eligible msg = (\<not> (role msg = System \<or> meta_isLoading msg \<or> meta_error msg))"
  by (simp add: eligible_def msg_status_def)

lemma msg_step_skip: "\<not> eligible msg \<Longrightarrow> msg_step b msg = b"
  by (simp add: eligible_iff msg_step_def)

lemma foldl_msg_step_filter: "foldl msg_step b msgs = foldl msg_step b (filter eligible msgs)"
  by (induction msgs arbitrary: b) (simp_all add: msg_step_skip)

lemma all_parts_step:
  "all_parts (msg_step b msg) =
     all_parts b @ (if eligible msg then convert_content (content msg) else [])"
  using foldl_push_part [of "currentParts b" "content msg"]
  by (auto simp add: eligible_iff msg_step_def all_parts_def convert_content_def Let_def
        split: option.splits)

lemma all_parts_foldl:
  "all_parts (foldl msg_step b msgs) =
     all_parts b @ concat (map (convert_content \<circ> content) (filter eligible msgs))"
  by (induction msgs arbitrary: b) (simp_all add: all_parts_step)

lemma builder_ok_step: "builder_ok b \<Longrightarrow> builder_ok (msg_step b msg)"
  by (simp add: builder_ok_def msg_step_def Let_def split: option.splits)

lemma builder_ok_foldl: "builder_ok b \<Longrightarrow> builder_ok (foldl msg_step b msgs)"
  by (induction msgs arbitrary: b) (simp_all add: builder_ok_step)

lemma all_parts_finish: "builder_ok b \<Longrightarrow> concat (map parts (builder_finish b)) = all_parts b"
  by (simp add: builder_finish_def all_parts_def builder_ok_def split: option.splits)

text \<open>
  Adjacent turns never share a role: a turn is flushed inside the loop only when the
  role changes.
\<close>

lemma alternating_step: "alternating b \<Longrightarrow> alternating (msg_step b msg)"
  by (auto simp add: alternating_def roles_of_def msg_step_def Let_def distinct_adj_append_iff
        split: option.splits)

lemma alternating_foldl: "alternating b \<Longrightarrow> alternating (foldl msg_step b msgs)"
  by (induction msgs arbitrary: b) (simp_all add: alternating_step)

lemma alternating_finish: "alternating b \<Longrightarrow> distinct_adj (map turn_role (builder_finish b))"
  by (auto simp add: alternating_def roles_of_def builder_finish_def distinct_adj_append_iff
        split: option.splits)

lemma buildGeminiHistory_alternates: "distinct_adj (map turn_role (buildGeminiHistory msgs))"
  unfolding buildGeminiHistory_def
  by (rule alternating_finish, rule alternating_foldl)
     (simp add: alternating_def roles_of_def builder_init_def)

text \<open>The spec's example of coalescing: two user messages and a model message, two turns.\<close>

lemma buildGeminiHistory_coalesces:
  "buildGeminiHistory
     [\<lparr>msg_id = ''1'', role = User, content = [text_part ''a''], timestamp = 1, meta = None\<rparr>,
      \<lparr>msg_id = ''2'', role = User, content = [text_part ''b''], timestamp = 2, meta = None\<rparr>,
      \<lparr>msg_id = ''3'', role = Model, content = [text_part ''c''], timestamp = 3, meta = None\<rparr>]
   = [\<lparr>turn_role = User, parts = [TextPart ''a'', TextPart ''b'']\<rparr>,
      \<lparr>turn_role = Model, parts = [TextPart ''c'']\<rparr>]"
  by (simp add: buildGeminiHistory_def builder_finish_def builder_init_def msg_step_def
        meta_isLoading_def meta_error_def push_part_def text_part_def)

text \<open>
  Claim C2: the compiled turns never have two adjacent turns of one role and never a
  turn with an empty parts list. The first half holds (\<open>buildGeminiHistory_alternates\<close>).
  The second does not: the flush on a role change pushes \<^verbatim>\<open>currentParts\<close> without the
  \<^verbatim>\<open>currentParts.length > 0\<close> test that the final flush makes. A user message whose only
  part is an image with bare base64 data (no data-URL prefix, so nothing after a comma)
  contributes no part; the model message after it flushes an empty user turn.
\<close>

theorem buildGeminiHistory_flushes_empty_turn:
  "buildGeminiHistory
     [\<lparr>msg_id = ''u1'', role = User,
       content = [\<lparr>ptype = ImageKind, pdata = ''QUJD'', mimeType = Some ''image/png''\<rparr>],
       timestamp = 1, meta = None\<rparr>,
      \<lparr>msg_id = ''m1'', role = Model, content = [text_part ''c''], timestamp = 2, meta = None\<rparr>]
   = [\<lparr>turn_role = User, parts = []\<rparr>, \<lparr>turn_role = Model, parts = [TextPart ''c'']\<rparr>]"
  by (simp add: buildGeminiHistory_def builder_finish_def builder_init_def msg_step_def
        meta_isLoading_def meta_error_def push_part_def base64_of_def text_part_def)

text \<open>
  Claim C3: system messages and pending or failed messages are excluded from the
  compiler's output wherever they stand in the input. Compiling a list gives what
  compiling only its final user and model messages gives, and the parts of the output
  turns, in order, are exactly the converted parts of those messages.
\<close>

theorem buildGeminiHistory_filters:
  "buildGeminiHistory msgs = buildGeminiHistory (filter eligible msgs)
   \<and> concat (map parts (buildGeminiHistory msgs)) =
       concat (map (convert_content \<circ> content) (filter eligible msgs))"
proof
  show "buildGeminiHistory msgs = buildGeminiHistory (filter eligible msgs)"
    using foldl_msg_step_filter [of builder_init msgs] by (simp add: buildGeminiHistory_def)
next
  have ok: "builder_ok (foldl msg_step builder_init msgs)"
    by (rule builder_ok_foldl) (simp add: builder_ok_def builder_init_def)
  have "all_parts builder_init = []"
    by (simp add: all_parts_def builder_init_def)
  then show "concat (map parts (buildGeminiHistory msgs)) =
       concat (map (convert_content \<circ> content) (filter eligible msgs))"
    using all_parts_finish [OF ok] all_parts_foldl [of builder_init msgs]
    by (simp add: buildGeminiHistory_def)
qed


section \<open>The store of \<^verbatim>\<open>src/state.ts\<close>\<close>

subsection \<open>Notification\<close>

lemma notify_loop_fields:
  "state (notify_loop cs subs w) = state w \<and> subscribers (notify_loop cs subs w) = subscribers w
   \<and> archive (notify_loop cs subs w) = archive w \<and> dateNow (notify_loop cs subs w) = dateNow w
   \<and> reads (notify_loop cs subs w) = reads w \<and> localeDate (notify_loop cs subs w) = localeDate w"
  by (induction subs arbitrary: w) (simp_all add: Let_def split: option.splits)





lemma forEach_ts_console:
  "ts_console (forEach_ts subs a) =
     ts_console a @ map (\<lambda>e. (LogError, ''[AppState] Error in subscriber callback: '' @ e))
                        (List.map_filter (\<lambda>cb. ts_callback cb (ts_state a)) subs)"
  by (induction subs arbitrary: a)
     (simp_all add: Let_def console_ts_def List.map_filter_simps split: option.splits)

lemma saveState_fields [simp]:
  "ts_state (saveState st a) = ts_state a"
  "ts_subscribers (saveState st a) = ts_subscribers a"
  "ts_delivered (saveState st a) = ts_delivered a"
  by (simp_all add: saveState_def console_ts_def)

lemma console_ts_fields [simp]:
  "ts_state (console_ts l s a) = ts_state a"
  "ts_subscribers (console_ts l s a) = ts_subscribers a"
  "ts_delivered (console_ts l s a) = ts_delivered a"
  by (simp_all add: console_ts_def)


subsection \<open>Mutations\<close>

lemma json_roundtrip_fields [simp]:
  "apiKey (json_roundtrip s) = apiKey s"
  "selectedModel (json_roundtrip s) = selectedModel s"
  "customInstructions (json_roundtrip s) = customInstructions s"
  "currentConversation (json_roundtrip s) = currentConversation s"
  "isSending (json_roundtrip s) = isSending s"
  "currentError (json_roundtrip s) = currentError s"
  by (simp_all add: json_roundtrip_def)


lemma updateState_env [simp]:
  "subscribers (updateState u w) = subscribers w"
  "archive (updateState u w) = archive w"
  "dateNow (updateState u w) = dateNow w"
  "reads (updateState u w) = reads w"
  "localeDate (updateState u w) = localeDate w"
  by (simp_all add: updateState_def notify_def Let_def notify_loop_fields)

lemma state_updateState: "state (updateState u w) = spread (state w) (u (getState w))"
  by (simp add: updateState_def notify_def Let_def notify_loop_fields)


lemma state_addMessage:
  "state (addMessage m w) =
     (state w)\<lparr>currentConversation := currentConversation (state w) @ [m], currentError := None\<rparr>"
  by (cases "state w"; cases "confirmModalAction (state w)")
     (simp_all add: addMessage_def state_updateState getState_def spread_def json_roundtrip_def)

lemma state_setConversation:
  "state (setConversation c w) = (state w)\<lparr>currentConversation := c\<rparr>"
  by (cases "state w"; cases "confirmModalAction (state w)")
     (simp_all add: setConversation_def state_updateState getState_def spread_def
        json_roundtrip_def)

lemma state_setIsSending: "state (setIsSending b w) = (state w)\<lparr>isSending := b\<rparr>"
  by (cases "state w"; cases "confirmModalAction (state w)")
     (simp_all add: setIsSending_def state_updateState getState_def spread_def json_roundtrip_def)

lemma state_setError: "state (setError e w) = (state w)\<lparr>currentError := e\<rparr>"
  by (cases "state w"; cases "confirmModalAction (state w)")
     (simp_all add: setError_def state_updateState getState_def spread_def json_roundtrip_def)

lemma state_clearConversation:
  "state (clearConversation w) = (state w)\<lparr>currentConversation := []\<rparr>"
  by (cases "state w"; cases "confirmModalAction (state w)")
     (simp_all add: clearConversation_def state_updateState getState_def spread_def
        json_roundtrip_def)

lemma state_updateMessage:
  "state (updateMessage i u w) =
     (state w)\<lparr>currentConversation :=
        map (\<lambda>msg. if msg_id msg = i then
                     merge_message msg (case u of PatchFunction f \<Rightarrow> f msg | PatchObject p \<Rightarrow> p)
                   else msg)
            (currentConversation (state w))\<rparr>"
  by (cases "state w"; cases "confirmModalAction (state w)")
     (simp_all add: updateMessage_def state_updateState getState_def spread_def json_roundtrip_def)

lemmas state_ops = state_addMessage state_setConversation state_setIsSending state_setError
  state_clearConversation state_updateMessage

lemma ops_env [simp]:
  "dateNow (addMessage m w) = dateNow w" "reads (addMessage m w) = reads w"
  "dateNow (setIsSending b w) = dateNow w" "reads (setIsSending b w) = reads w"
  "dateNow (setConversation c w) = dateNow w" "reads (setConversation c w) = reads w"
  by (simp_all add: addMessage_def setIsSending_def setConversation_def)

lemma ops_archive [simp]:
  "archive (addMessage m w) = archive w" "archive (clearConversation w) = archive w"
  "archive (closeConfirmModal w) = archive w"
  by (simp_all add: addMessage_def clearConversation_def closeConfirmModal_def)



lemma closeConfirmModal_conv:
  "currentConversation (state (closeConfirmModal w)) = currentConversation (state w)"
  by (simp add: closeConfirmModal_def state_updateState spread_def getState_def)


text \<open>
  Claim C4, as stated: \<^verbatim>\<open>addMessage\<close> fails with a \<^verbatim>\<open>ValidationError\<close>, the state
  unchanged, when the id is already in the list, so that an added id is in the list
  exactly once. The code has no such check: adding a message whose id is \<open>u1\<close> to a
  conversation that holds \<open>u1\<close> succeeds, and the id is then in the snapshot twice.
\<close>

theorem addMessage_duplicate_id_counterexample:
  "map msg_id (currentConversation (getState (addMessage
      \<lparr>msg_id = ''u1'', role = User, content = [text_part ''again''], timestamp = 3,
       meta = None\<rparr> regen_app)))
   = [''u1'', ''m1'', ''u1'']"
  by (simp add: getState_def state_addMessage regen_app_def hi_hello_def initial_state_def)

text \<open>
  Claim C4, amended: \<^verbatim>\<open>addMessage(msg)\<close> always appends \<open>msg\<close> at the tail of the message
  list (and clears the current error, changing nothing else of the state); it checks no
  id and never fails. The id of \<open>msg\<close> is in the resulting snapshot's list once more often
  than before: exactly once, at the tail, when no message had that id.
\<close>

theorem addMessage_appends:
  "state (addMessage m w) =
     (state w)\<lparr>currentConversation := currentConversation (state w) @ [m], currentError := None\<rparr>
   \<and> currentConversation (getState (addMessage m w)) = currentConversation (state w) @ [m]
   \<and> count_list (map msg_id (currentConversation (getState (addMessage m w)))) (msg_id m)
       = Suc (count_list (map msg_id (currentConversation (state w))) (msg_id m))"
  by (simp add: getState_def state_addMessage)

subsection \<open>\<^verbatim>\<open>updateMessage\<close>\<close>






section \<open>The handlers\<close>

lemma Date_now_fields [simp]:
  "state (snd (Date_now w)) = state w" "archive (snd (Date_now w)) = archive w"
  by (simp_all add: Date_now_def)

lemma console_log_fields [simp]:
  "state (console_log l s w) = state w" "archive (console_log l s w) = archive w"
  by (simp_all add: console_log_def)

lemma show_nat_examples:
  "show_nat 1000 = ''1000''" "show_nat 1002 = ''1002''"
  by (simp_all add: show_nat.simps digit_char_def)

lemma more_env [simp]:
  "dateNow (clearConversation w) = dateNow w" "reads (clearConversation w) = reads w"
  "dateNow (console_log l s w) = dateNow w" "reads (console_log l s w) = reads w"
  "dateNow (archiveChat c w) = dateNow w" "reads (archiveChat c w) = reads w"
  by (simp_all add: clearConversation_def console_log_def archiveChat_def)

lemma archiveChat_fields [simp]:
  "state (archiveChat c w) = state w" "archive (archiveChat c w) = archive w @ [c]"
  by (simp_all add: archiveChat_def)



subsection \<open>Starting a new chat\<close>

lemma new_chat_archive:
  "archive (handleNewChatRequest saveCurrent w) =
     (if saveCurrent \<and> currentConversation (state w) \<noteq> [] then
        archive w @
          [\<lparr>archive_id = ''archive-'' @ show_nat (dateNow w (reads w)),
            archive_timestamp = dateNow w (Suc (reads w)),
            summary = chat_summary (currentConversation (state w)) (localeDate w) @ ''...'',
            conversation = currentConversation (state w),
            snapshot_selectedModel = selectedModel (state w),
            snapshot_customInstructions = customInstructions (state w)\<rparr>]
      else archive w)"
  by (simp add: handleNewChatRequest_def Let_def getState_def split_beta Date_now_def)

lemma new_chat_roles:
  "map role (currentConversation (state (handleNewChatRequest saveCurrent w))) =
     (if truthy_str (apiKey (state w)) then [System] else [System, System])"
  by (simp add: handleNewChatRequest_def Let_def getState_def split_beta closeConfirmModal_conv
        state_ops Date_now_def)

text \<open>
  Claim C7, as stated: saving and starting a new chat leaves the working message list
  empty. The handler clears the list and then adds a system message to it: from the
  conversation \<^verbatim>\<open>[user:"hi", model:"hello"]\<close> the list ends as one system message
  (while the archive has grown by one), and from an empty conversation it ends the same
  way (the archive not growing).
\<close>

theorem new_chat_not_empty_counterexample:
  "currentConversation (state (handleNewChatRequest True regen_app)) =
     [\<lparr>msg_id = ''sys-1002'', role = System, content = [text_part ''New chat started.''],
       timestamp = 1003, meta = None\<rparr>]
   \<and> length (archive (handleNewChatRequest True regen_app)) = Suc (length (archive regen_app))
   \<and> currentConversation (state (handleNewChatRequest True empty_app)) =
     [\<lparr>msg_id = ''sys-1000'', role = System, content = [text_part ''New chat started.''],
       timestamp = 1001, meta = None\<rparr>]
   \<and> length (archive (handleNewChatRequest True empty_app)) = length (archive empty_app)"
proof (intro conjI)
  show "currentConversation (state (handleNewChatRequest True regen_app)) =
     [\<lparr>msg_id = ''sys-1002'', role = System, content = [text_part ''New chat started.''],
       timestamp = 1003, meta = None\<rparr>]"
    by (simp add: handleNewChatRequest_def Let_def getState_def split_beta
          closeConfirmModal_conv state_ops Date_now_def regen_app_def hi_hello_def
          initial_state_def show_nat_examples)
  show "length (archive (handleNewChatRequest True regen_app)) = Suc (length (archive regen_app))"
    by (simp add: new_chat_archive regen_app_def hi_hello_def)
  show "currentConversation (state (handleNewChatRequest True empty_app)) =
     [\<lparr>msg_id = ''sys-1000'', role = System, content = [text_part ''New chat started.''],
       timestamp = 1001, meta = None\<rparr>]"
    by (simp add: handleNewChatRequest_def Let_def getState_def split_beta
          closeConfirmModal_conv state_ops Date_now_def regen_app_def empty_app_def
          initial_state_def show_nat_examples)
  show "length (archive (handleNewChatRequest True empty_app)) = length (archive empty_app)"
    by (simp add: new_chat_archive regen_app_def empty_app_def)
qed

text \<open>
  Claim C7, amended: saving and starting a new chat on a non-empty conversation adds
  exactly one entry to the archive, holding the conversation as it was, and on an empty
  conversation (or when saving is not asked for) adds none; in every case the working
  message list is then reset to system notices only, one saying that a new chat started
  and, when no API key is set, a second one reminding of it: no user or model message is
  left, but the list is not empty.
\<close>

theorem new_chat_archives_and_resets:
  "map conversation (archive (handleNewChatRequest saveCurrent w)) =
     map conversation (archive w) @
       (if saveCurrent \<and> currentConversation (state w) \<noteq> []
        then [currentConversation (state w)] else [])
   \<and> length (archive (handleNewChatRequest saveCurrent w)) =
       length (archive w) + (if saveCurrent \<and> currentConversation (state w) \<noteq> [] then 1 else 0)
   \<and> map role (currentConversation (state (handleNewChatRequest saveCurrent w))) =
       (if truthy_str (apiKey (state w)) then [System] else [System, System])"
  by (simp add: new_chat_archive new_chat_roles)

subsection \<open>Sending and regenerating\<close>

lemma begin_sends:
  assumes "\<not> isSending (state w)" "truthy_str (apiKey (state w))"
  shows "state (fst (handleSendMessage_begin c w)) =
           (state w)\<lparr>currentConversation :=
                        currentConversation (state w) @ [userMessage_of c w, thinking_of w],
                     currentError := None, isSending := True\<rparr>"
    and "map_option aiThinkingMessageId (snd (handleSendMessage_begin c w)) =
           Some (msg_id (thinking_of w))"
  using assms
  by (simp_all add: handleSendMessage_begin_def getState_def Let_def Date_now_def state_ops
        userMessage_of_def thinking_of_def)

lemma settle_resolved:
  "state (handleSendMessage_settle aiId (Resolved ps) w) =
     (state w)\<lparr>currentConversation :=
         map (\<lambda>msg. if msg_id msg = aiId
                    then merge_message msg (settle_patch (aiResponseText ps)) else msg)
             (currentConversation (state w)),
       isSending := False\<rparr>"
  by (simp add: handleSendMessage_settle_def Let_def state_ops settle_patch_def)

text \<open>
  What regenerate does in general: it keeps everything before the target model message,
  the user message that prompted it included, and the send it then makes appends a new
  user message with the same content, followed by the placeholder for the reply.
\<close>

lemma regenerate_begin:
  assumes "\<not> isSending (state w)" "truthy_str (apiKey (state w))"
    and "findIndex (\<lambda>msg. msg_id msg = mid) (currentConversation (state w)) = Some i"
    and "role (currentConversation (state w) ! i) = Model"
    and "scan_back (currentConversation (state w)) i = Some j"
  shows "currentConversation (state (fst (handleRegenerateResponse_begin mid w))) =
           take i (currentConversation (state w)) @
             [userMessage_of (content (currentConversation (state w) ! j)) w, thinking_of w]"
  using assms
  by (simp add: handleRegenerateResponse_begin_def getState_def Let_def state_ops
        begin_sends(1) [of "setConversation (take i (currentConversation (state w))) w"]
        userMessage_of_def thinking_of_def)

text \<open>
  Claim C1: regenerating the last model message of \<^verbatim>\<open>[user:"hi", model:"hello"]\<close>
  leaves, once the new reply has resolved, exactly \<^verbatim>\<open>[user:"hi", model:<new reply>]\<close>.
  The handler does scan back to the user message, truncate to just before the model
  message and send that user message's content again; but the send it reuses appends a
  user message of its own, so the conversation ends with three messages, the user's
  \<open>hi\<close> twice.
\<close>

theorem regenerate_duplicates_user_message:
  "currentConversation
     (state (handleRegenerateResponse ''m1'' (Resolved (Some [Some ''new''])) regen_app))
   = [\<lparr>msg_id = ''u1'', role = User, content = [text_part ''hi''], timestamp = 1, meta = None\<rparr>,
      \<lparr>msg_id = ''user-1000'', role = User, content = [text_part ''hi''], timestamp = 1001,
       meta = None\<rparr>,
      \<lparr>msg_id = ''ai-thinking-1002'', role = Model, content = [text_part ''new''],
       timestamp = 1003, meta = Some (empty_meta\<lparr>isLoading := Some False\<rparr>)\<rparr>]"
  by (simp add: handleRegenerateResponse_def handleRegenerateResponse_begin_def
        handleSendMessage_begin_def handleSendMessage_settle_def getState_def Let_def
        Date_now_def state_ops regen_app_def hi_hello_def initial_state_def show_nat_examples
        merge_message_def spread_meta_def empty_meta_def or_else_def aiResponseText_def)

end
